theory Spec2Isabelle
  imports Complex_Main
begin

section \<open>The receipt service of the TIKI receipt plugin\<close>

text \<open>
  A shallow embedding of \<^verbatim>\<open>src/service/receipt/receipt-service.ts\<close> (class
  \<^verbatim>\<open>ReceiptService\<close>). The service owns three pieces of state: the account cache
  \<^verbatim>\<open>_accounts\<close> and the two listener registries. Everything else it does is a call to
  a collaborator: the capture plugin (\<^verbatim>\<open>this.plugin\<close>), the ledger client
  (\<^verbatim>\<open>this.tiki.sdk\<close>), the history log (\<^verbatim>\<open>this.tiki.history\<close>), the configured
  reward issuers, the registered listeners and the console. Each such call is recorded,
  in the order in which it is made, in a trace that is part of the modelled state; what a
  collaborator answers is a parameter of the model (the environment).

  The sources also hold an earlier revision of the class (no scan type, threshold
  \<^verbatim>\<open>0.8\<close>), in which \<^verbatim>\<open>addReceipt\<close> refuses a duplicate or fraudulent receipt and
  \<^verbatim>\<open>process\<close> loops over the rewards with the same statements; the model follows the
  current file.

  Every method returns a pair: the outcome (\<open>Inl\<close> for a thrown error or a rejected
  promise, \<open>Inr\<close> for normal completion) and the state reached, since a method that
  throws keeps the mutations it made before.
\<close>

subsection \<open>Data\<close>

text \<open>
  \<^verbatim>\<open>ScanType\<close> is declared in \<^verbatim>\<open>receipt-account-type.ts\<close>, which is not among the
  sources. The service uses the strings \<^verbatim>\<open>'PHYSICAL'\<close> and \<^verbatim>\<open>'ONLINE'\<close>; any other
  string that reaches \<^verbatim>\<open>scan\<close> as its scan type is \<open>OtherScanType\<close> of that string.
  The empty string, \<open>OtherScanType []\<close>, is the one defined scan type that is falsy.
\<close>

datatype ScanType = PHYSICAL | ONLINE | OtherScanType string

datatype ReceiptEvent = LINK | UNLINK | SCAN

text \<open>A thrown \<^verbatim>\<open>Error\<close> or a rejection reason, with its message.\<close>

datatype error = Error string

text \<open>The template literal \<^verbatim>\<open>${error}\<close> applied to an \<^verbatim>\<open>Error\<close> object.\<close>

fun toString :: "error \<Rightarrow> string" where
  "toString (Error msg) = ''Error: '' @ msg"

type_synonym 'r result = "error + 'r"

text \<open>
  The fields of \<^verbatim>\<open>ReceiptAccount\<close> and of its \<^verbatim>\<open>accountType\<close> that the service reads
  or writes. An optional field (read with \<^verbatim>\<open>!\<close> or \<^verbatim>\<open>?.\<close>) is an \<open>option\<close>.
\<close>

record ReceiptAccountType =
  type :: "string option"
  key :: "string option"

record ReceiptAccount =
  username :: string
  password :: "string option"
  accountType :: ReceiptAccountType
  isVerified :: bool

text \<open>
  The fields of the capture plugin's \<^verbatim>\<open>Receipt\<close> that the service reads.
  \<^verbatim>\<open>ocrConfidence\<close> is a finite binary64 number, that is, a dyadic rational; the order
  of finite binary64 numbers is the order of the rationals.
\<close>

record Receipt =
  blinkReceiptId :: "string option"
  ocrConfidence :: rat
  duplicate :: bool
  fraudulent :: bool

text \<open>The \<^verbatim>\<open>details\<close> argument of \<^verbatim>\<open>process\<close> and of a reward issuer.\<close>

record Details =
  receipt :: "Receipt option"
  account :: "ReceiptAccount option"

text \<open>
  The four arguments of \<^verbatim>\<open>HistoryEvent.new\<close>: amount, date, event and the account
  type. The class itself is not among the sources; its \<^verbatim>\<open>name\<close> getter is a parameter
  of the environment below.
\<close>

record HistoryEvent =
  amount :: rat
  date :: nat
  event :: ReceiptEvent
  provider :: "string option"

definition HistoryEvent_new :: "rat \<Rightarrow> nat \<Rightarrow> ReceiptEvent \<Rightarrow> string option \<Rightarrow> HistoryEvent" where
  "HistoryEvent_new a d e p = \<lparr>amount = a, date = d, event = e, provider = p\<rparr>"

text \<open>An element of \<^verbatim>\<open>config.rewards\<close>: its \<^verbatim>\<open>issuer\<close> returns an amount or \<^verbatim>\<open>undefined\<close>.\<close>

record Reward =
  issuer :: "ReceiptEvent \<Rightarrow> Details \<Rightarrow> rat option"

datatype LicenseRecord = LicenseRecord string

text \<open>The two \<^verbatim>\<open>console.warn\<close> messages, with the values interpolated into them.\<close>

datatype warning =
    LowConfidence rat
  | ReceiptIgnored bool bool rat

subsection \<open>Calls to collaborators\<close>

datatype effect =
    PluginLogin string "string option" "string option"
  | PluginLogout "(string \<times> string option \<times> string option) option"
  | PluginAccounts
  | PluginScan ScanType "ReceiptAccount option"
  | SdkGetLicense
  | SdkIngest Receipt
  | SdkCreatePayable rat string "string option"
  | HistoryAdd HistoryEvent
  | IssuerCall ReceiptEvent Details "rat option"
  | AccountListenerCall string ReceiptAccount
  | ReceiptListenerCall string Receipt ReceiptAccount
  | ConsoleWarn warning

text \<open>
  The environment: what each collaborator answers. An answer may depend on every call
  made before (the first argument, the trace so far) and on the arguments of the call.
  A promise that rejects, or a callback that throws, answers with an error. The type
  parameter is the capture plugin's own \<^verbatim>\<open>Account\<close> type, which the service only hands
  to \<^verbatim>\<open>ReceiptAccount.fromValue\<close>; that static method is not among the sources and is a
  parameter too (its argument is \<open>None\<close> where the source passes \<^verbatim>\<open>undefined\<close>).
\<close>

record 'a Env =
  sdk_id :: string
  sdk_getLicense :: "effect list \<Rightarrow> LicenseRecord option result"
  sdk_ingest :: "effect list \<Rightarrow> Receipt \<Rightarrow> error option"
  sdk_createPayable :: "effect list \<Rightarrow> rat \<Rightarrow> string \<Rightarrow> string option \<Rightarrow> error option"
  plugin_login :: "effect list \<Rightarrow> string \<Rightarrow> string option \<Rightarrow> string option \<Rightarrow> error option"
  plugin_logout :: "effect list \<Rightarrow> (string \<times> string option \<times> string option) option \<Rightarrow> error option"
  plugin_accounts :: "effect list \<Rightarrow> 'a list result"
  plugin_scan :: "effect list \<Rightarrow> ScanType \<Rightarrow> ReceiptAccount option \<Rightarrow> Receipt result"
  fromValue :: "'a option \<Rightarrow> ReceiptAccount result"
  config_rewards :: "Reward list"
  name :: "HistoryEvent \<Rightarrow> string"
  now :: "effect list \<Rightarrow> nat"

subsection \<open>The state of the service\<close>

text \<open>
  A listener is a callback of the host application: it returns (\<open>None\<close>) or throws.
  A JavaScript \<^verbatim>\<open>Map\<close> iterates in insertion order, so a registry is an association
  list.
\<close>

type_synonym AccountListener = "ReceiptAccount \<Rightarrow> error option"
type_synonym ReceiptListener = "Receipt \<Rightarrow> ReceiptAccount \<Rightarrow> error option"

record ReceiptService =
  cachedAccounts :: "ReceiptAccount list"
  onAccountListeners :: "(string \<times> AccountListener) list"
  onReceiptListeners :: "(string \<times> ReceiptListener) list"
  trace :: "effect list"

definition emit :: "effect \<Rightarrow> ReceiptService \<Rightarrow> ReceiptService" where
  "emit e s = s\<lparr>trace := trace s @ [e]\<rparr>"

text \<open>\<^verbatim>\<open>OCR_THRESHOLD = 0.9\<close>: the binary64 number that the literal denotes.\<close>

definition OCR_THRESHOLD :: rat where
  "OCR_THRESHOLD = 8106479329266893 / 9007199254740992"

subsection \<open>The decision loop\<close>

text \<open>
  \<^verbatim>\<open>process\<close>: the \<^verbatim>\<open>for ... of\<close> loop over \<^verbatim>\<open>config.rewards\<close>. A rejected
  \<^verbatim>\<open>createPayable\<close> leaves the loop through the \<^verbatim>\<open>await\<close>.
\<close>

fun process_loop ::
  "'a Env \<Rightarrow> ReceiptEvent \<Rightarrow> Details \<Rightarrow> Reward list \<Rightarrow> ReceiptService \<Rightarrow> unit result \<times> ReceiptService"
where
  "process_loop env ev details [] s = (Inr (), s)"
| "process_loop env ev details (reward # rest) s =
     (let amt = issuer reward ev details;
          s1 = emit (IssuerCall ev details amt) s
      in case amt of
           None \<Rightarrow> process_loop env ev details rest s1
         | Some a \<Rightarrow>
             (let historyEvent =
                    HistoryEvent_new a (now env (trace s1)) ev
                      (case account details of None \<Rightarrow> None | Some acc \<Rightarrow> type (accountType acc));
                  rid = (case receipt details of None \<Rightarrow> None | Some r \<Rightarrow> blinkReceiptId r);
                  s2 = emit (SdkCreatePayable a (name env historyEvent) rid) s1
              in case sdk_createPayable env (trace s1) a (name env historyEvent) rid of
                   Some e \<Rightarrow> (Inl e, s2)
                 | None \<Rightarrow> process_loop env ev details rest (emit (HistoryAdd historyEvent) s2)))"

definition process ::
  "'a Env \<Rightarrow> ReceiptEvent \<Rightarrow> Details \<Rightarrow> ReceiptService \<Rightarrow> unit result \<times> ReceiptService"
where
  "process env ev details s = process_loop env ev details (config_rewards env) s"

subsection \<open>Admission of a receipt\<close>

text \<open>
  The \<^verbatim>\<open>forEach\<close> over the receipt listeners. The argument
  \<^verbatim>\<open>ReceiptAccount.fromValue(account!)\<close> is evaluated anew for each listener. A listener
  that throws ends the iteration.
\<close>

fun notifyReceipt ::
  "'a Env \<Rightarrow> (string \<times> ReceiptListener) list \<Rightarrow> Receipt \<Rightarrow> 'a option \<Rightarrow> ReceiptService
     \<Rightarrow> unit result \<times> ReceiptService"
where
  "notifyReceipt env [] r acct s = (Inr (), s)"
| "notifyReceipt env ((lid, listener) # rest) r acct s =
     (case fromValue env acct of
        Inl e \<Rightarrow> (Inl e, s)
      | Inr ra \<Rightarrow>
          (let s1 = emit (ReceiptListenerCall lid r ra) s
           in case listener r ra of
                Some e \<Rightarrow> (Inl e, s1)
              | None \<Rightarrow> notifyReceipt env rest r acct s1))"

text \<open>\<^verbatim>\<open>addReceipt(receipt, account?)\<close>.\<close>

definition addReceipt ::
  "'a Env \<Rightarrow> Receipt \<Rightarrow> 'a option \<Rightarrow> ReceiptService \<Rightarrow> unit result \<times> ReceiptService"
where
  "addReceipt env r acct s =
     (if \<not> duplicate r \<and> \<not> fraudulent r then
        (let s1 = emit (SdkIngest r) s
         in case sdk_ingest env (trace s) r of
              Some e \<Rightarrow> (Inl e, s1)
            | None \<Rightarrow>
                (case fromValue env acct of
                   Inl e \<Rightarrow> (Inl e, s1)
                 | Inr ra \<Rightarrow>
                     (case process env SCAN \<lparr>receipt = Some r, account = Some ra\<rparr> s1 of
                        (Inl e, s2) \<Rightarrow> (Inl e, s2)
                      | (Inr u, s2) \<Rightarrow> notifyReceipt env (onReceiptListeners s2) r acct s2)))
      else
        (Inr (), emit (ConsoleWarn (ReceiptIgnored (duplicate r) (fraudulent r) (ocrConfidence r))) s))"

subsection \<open>Scanning\<close>

text \<open>
  \<^verbatim>\<open>scan(scanType, account?)\<close>: two \<^verbatim>\<open>if\<close> statements in sequence. The guard of the
  second one, \<^verbatim>\<open>!scanType\<close>, is a test of truthiness: it holds for \<^verbatim>\<open>undefined\<close> and
  for the empty string. In that branch \<^verbatim>\<open>addReceipt\<close> is called without \<^verbatim>\<open>await\<close>:
  \<^verbatim>\<open>scan\<close> resolves whatever becomes of that call, whose effects are placed here in the
  order of a run to completion.
\<close>

definition scan ::
  "'a Env \<Rightarrow> ScanType option \<Rightarrow> ReceiptAccount option \<Rightarrow> ReceiptService \<Rightarrow> unit result \<times> ReceiptService"
where
  "scan env scanType acct s =
     (case (if scanType = Some PHYSICAL then
              (let s1 = emit SdkGetLicense s
               in case sdk_getLicense env (trace s) of
                    Inl e \<Rightarrow> (Inl e, s1)
                  | Inr None \<Rightarrow>
                      (Inl (Error (''No license found for '' @ sdk_id env
                                     @ ''. User must first consent to the program.'')), s1)
                  | Inr (Some license) \<Rightarrow>
                      (let s2 = emit (PluginScan PHYSICAL None) s1
                       in case plugin_scan env (trace s1) PHYSICAL None of
                            Inl e \<Rightarrow> (Inl e, s2)
                          | Inr r \<Rightarrow>
                              if OCR_THRESHOLD < ocrConfidence r then addReceipt env r None s2
                              else (Inr (), emit (ConsoleWarn (LowConfidence (ocrConfidence r))) s2)))
            else (Inr (), s)) of
        (Inl e, s') \<Rightarrow> (Inl e, s')
      | (Inr u, s') \<Rightarrow>
          if scanType = None \<or> scanType = Some (OtherScanType []) then
            (let s1 = emit (PluginScan ONLINE acct) s'
             in case plugin_scan env (trace s') ONLINE acct of
                  Inl e \<Rightarrow> (Inl e, s1)
                | Inr r \<Rightarrow> (Inr (), snd (addReceipt env r None s1)))
          else (Inr (), s'))"

subsection \<open>The account cache and the registries\<close>

text \<open>\<^verbatim>\<open>Map.set\<close>: an existing key keeps its place, a new key goes to the end.\<close>

fun map_set :: "string \<Rightarrow> 'v \<Rightarrow> (string \<times> 'v) list \<Rightarrow> (string \<times> 'v) list" where
  "map_set k v [] = [(k, v)]"
| "map_set k v ((k', v') # rest) =
     (if k' = k then (k, v) # rest else (k', v') # map_set k v rest)"

definition onAccount :: "string \<Rightarrow> AccountListener \<Rightarrow> ReceiptService \<Rightarrow> ReceiptService" where
  "onAccount lid listener s = s\<lparr>onAccountListeners := map_set lid listener (onAccountListeners s)\<rparr>"

definition onReceipt :: "string \<Rightarrow> ReceiptListener \<Rightarrow> ReceiptService \<Rightarrow> ReceiptService" where
  "onReceipt lid listener s = s\<lparr>onReceiptListeners := map_set lid listener (onReceiptListeners s)\<rparr>"

text \<open>The \<^verbatim>\<open>forEach\<close> over the account listeners.\<close>

fun notifyAccount ::
  "(string \<times> AccountListener) list \<Rightarrow> ReceiptAccount \<Rightarrow> ReceiptService \<Rightarrow> unit result \<times> ReceiptService"
where
  "notifyAccount [] acct s = (Inr (), s)"
| "notifyAccount ((lid, listener) # rest) acct s =
     (let s1 = emit (AccountListenerCall lid acct) s
      in case listener acct of
           Some e \<Rightarrow> (Inl e, s1)
         | None \<Rightarrow> notifyAccount rest acct s1)"

text \<open>
  \<^verbatim>\<open>addAccount\<close>: push, notify, then \<^verbatim>\<open>this.scan('ONLINE', account)\<close> without
  \<^verbatim>\<open>await\<close>, so that the outcome of the scan is dropped.
\<close>

definition addAccount ::
  "'a Env \<Rightarrow> ReceiptAccount \<Rightarrow> ReceiptService \<Rightarrow> unit result \<times> ReceiptService"
where
  "addAccount env acct s =
     (let s1 = s\<lparr>cachedAccounts := cachedAccounts s @ [acct]\<rparr>
      in case notifyAccount (onAccountListeners s1) acct s1 of
           (Inl e, s2) \<Rightarrow> (Inl e, s2)
         | (Inr u, s2) \<Rightarrow> (Inr (), snd (scan env (Some ONLINE) (Some acct) s2)))"

definition removeAccount ::
  "ReceiptAccount \<Rightarrow> ReceiptService \<Rightarrow> unit result \<times> ReceiptService"
where
  "removeAccount acct s =
     (let s1 = s\<lparr>cachedAccounts :=
                  filter (\<lambda>acc. username acc \<noteq> username acct
                              \<and> type (accountType acc) \<noteq> type (accountType acct))
                         (cachedAccounts s)\<rparr>
      in notifyAccount (onAccountListeners s1) acct s1)"

subsection \<open>Login, logout and the persisted accounts\<close>

definition login ::
  "'a Env \<Rightarrow> ReceiptAccount \<Rightarrow> ReceiptService \<Rightarrow> unit result \<times> ReceiptService"
where
  "login env acct s =
     (let s1 = emit (PluginLogin (username acct) (password acct) (key (accountType acct))) s
      in case plugin_login env (trace s) (username acct) (password acct) (key (accountType acct)) of
           Some e \<Rightarrow> (Inl e, s1)
         | None \<Rightarrow>
             (let verified = acct\<lparr>isVerified := True\<rparr>
              in case addAccount env verified s1 of
                   (Inl e, s2) \<Rightarrow> (Inl e, s2)
                 | (Inr u, s2) \<Rightarrow> process env LINK \<lparr>receipt = None, account = Some verified\<rparr> s2))"

definition logout ::
  "'a Env \<Rightarrow> ReceiptAccount option \<Rightarrow> ReceiptService \<Rightarrow> unit result \<times> ReceiptService"
where
  "logout env acct s =
     (case acct of
        None \<Rightarrow>
          (let s1 = emit (PluginLogout None) s
           in case plugin_logout env (trace s) None of
                Some e \<Rightarrow> (Inl e, s1)
              | None \<Rightarrow> (Inr (), s1\<lparr>cachedAccounts := []\<rparr>))
      | Some a \<Rightarrow>
          (let args = Some (username a, password a, key (accountType a));
               s1 = emit (PluginLogout args) s
           in case plugin_logout env (trace s) args of
                Some e \<Rightarrow> (Inl e, s1)
              | None \<Rightarrow>
                  (case removeAccount a s1 of
                     (Inl e, s2) \<Rightarrow> (Inl e, s2)
                   | (Inr u, s2) \<Rightarrow> process env UNLINK \<lparr>receipt = None, account = Some a\<rparr> s2)))"

text \<open>
  The callback that \<^verbatim>\<open>accounts()\<close> runs on each persisted account, and the
  \<^verbatim>\<open>try\<close>/\<^verbatim>\<open>catch\<close> around the whole.
\<close>

fun accounts_forEach ::
  "'a Env \<Rightarrow> 'a list \<Rightarrow> ReceiptService \<Rightarrow> unit result \<times> ReceiptService"
where
  "accounts_forEach env [] s = (Inr (), s)"
| "accounts_forEach env (a # rest) s =
     (case fromValue env (Some a) of
        Inl e \<Rightarrow> (Inl e, s)
      | Inr ra \<Rightarrow>
          (case addAccount env ra s of
             (Inl e, s1) \<Rightarrow> (Inl e, s1)
           | (Inr u, s1) \<Rightarrow>
               (case fromValue env (Some a) of
                  Inl e \<Rightarrow> (Inl e, s1)
                | Inr ra' \<Rightarrow>
                    accounts_forEach env rest (snd (scan env (Some ONLINE) (Some ra') s1)))))"

definition accounts :: "'a Env \<Rightarrow> ReceiptService \<Rightarrow> unit result \<times> ReceiptService" where
  "accounts env s =
     (let s1 = emit PluginAccounts s
      in case (case plugin_accounts env (trace s) of
                 Inl e \<Rightarrow> (Inl e, s1)
               | Inr persisted \<Rightarrow> accounts_forEach env persisted s1) of
           (Inl e, s2) \<Rightarrow> (Inl (Error (''Could not load the accounts; Error: '' @ toString e)), s2)
         | (Inr u, s2) \<Rightarrow> (Inr (), s2))"

subsection \<open>Reading a trace\<close>

text \<open>
  The calls that a method adds to the trace, and the projections of a list of calls on
  the reward issuers, the payables, the history log, the account listeners and the
  capture plugin's scan.
\<close>

definition newEffects :: "ReceiptService \<Rightarrow> ReceiptService \<Rightarrow> effect list" where
  "newEffects s s' = drop (length (trace s)) (trace s')"

fun issuerCalls :: "effect list \<Rightarrow> (ReceiptEvent \<times> Details \<times> rat option) list" where
  "issuerCalls [] = []"
| "issuerCalls (IssuerCall ev d amt # es) = (ev, d, amt) # issuerCalls es"
| "issuerCalls (e # es) = issuerCalls es"

fun payableAmounts :: "effect list \<Rightarrow> rat list" where
  "payableAmounts [] = []"
| "payableAmounts (SdkCreatePayable a n rid # es) = a # payableAmounts es"
| "payableAmounts (e # es) = payableAmounts es"

fun historyAmounts :: "effect list \<Rightarrow> rat list" where
  "historyAmounts [] = []"
| "historyAmounts (HistoryAdd h # es) = amount h # historyAmounts es"
| "historyAmounts (e # es) = historyAmounts es"

fun accountListenerCalls :: "effect list \<Rightarrow> (string \<times> ReceiptAccount) list" where
  "accountListenerCalls [] = []"
| "accountListenerCalls (AccountListenerCall lid acct # es) = (lid, acct) # accountListenerCalls es"
| "accountListenerCalls (e # es) = accountListenerCalls es"

fun pluginScans :: "effect list \<Rightarrow> (ScanType \<times> ReceiptAccount option) list" where
  "pluginScans [] = []"
| "pluginScans (PluginScan st acct # es) = (st, acct) # pluginScans es"
| "pluginScans (e # es) = pluginScans es"

subsection \<open>Example values\<close>

definition gmail :: ReceiptAccountType where
  "gmail = \<lparr>type = Some ''EMAIL'', key = Some ''GMAIL''\<rparr>"

definition alice :: ReceiptAccount where
  "alice = \<lparr>username = ''alice'', password = Some ''a-secret'', accountType = gmail, isVerified = True\<rparr>"

definition bob :: ReceiptAccount where
  "bob = \<lparr>username = ''bob'', password = Some ''b-secret'', accountType = gmail, isVerified = True\<rparr>"

definition sharpReceipt :: Receipt where
  "sharpReceipt = \<lparr>blinkReceiptId = Some ''r-1'', ocrConfidence = 19 / 20, duplicate = False, fraudulent = False\<rparr>"

definition blurredReceipt :: Receipt where
  "blurredReceipt = \<lparr>blinkReceiptId = Some ''r-2'', ocrConfidence = 1 / 2, duplicate = False, fraudulent = False\<rparr>"

definition duplicateReceipt :: Receipt where
  "duplicateReceipt = \<lparr>blinkReceiptId = Some ''r-3'', ocrConfidence = 19 / 20, duplicate = True, fraudulent = False\<rparr>"

definition linkReward :: Reward where
  "linkReward = \<lparr>issuer = (\<lambda>ev d. if ev = LINK then Some 1 else None)\<rparr>"

definition scanReward :: Reward where
  "scanReward = \<lparr>issuer = (\<lambda>ev d. if ev = SCAN then Some 2 else None)\<rparr>"

definition linkBonus :: Reward where
  "linkBonus = \<lparr>issuer = (\<lambda>ev d. if ev = LINK then Some (1 / 2) else None)\<rparr>"

definition env0 :: "ReceiptAccount Env" where
  "env0 = \<lparr>sdk_id = ''user-1'',
           sdk_getLicense = (\<lambda>tr. Inr (Some (LicenseRecord ''license-1''))),
           sdk_ingest = (\<lambda>tr r. None),
           sdk_createPayable = (\<lambda>tr a n rid. None),
           plugin_login = (\<lambda>tr u p k. None),
           plugin_logout = (\<lambda>tr args. None),
           plugin_accounts = (\<lambda>tr. Inr [alice, bob]),
           plugin_scan = (\<lambda>tr st acct. Inr blurredReceipt),
           fromValue = (\<lambda>a. case a of None \<Rightarrow> Inl (Error ''account is undefined'') | Some x \<Rightarrow> Inr x),
           config_rewards = [linkReward, scanReward, linkBonus],
           name = (\<lambda>h. case event h of LINK \<Rightarrow> ''LINK'' | UNLINK \<Rightarrow> ''UNLINK'' | SCAN \<Rightarrow> ''SCAN''),
           now = (\<lambda>tr. length tr)\<rparr>"

definition s0 :: ReceiptService where
  "s0 = \<lparr>cachedAccounts = [], onAccountListeners = [], onReceiptListeners = [], trace = []\<rparr>"

definition quiet :: AccountListener where
  "quiet = (\<lambda>acct. None)"

definition quietReceipt :: ReceiptListener where
  "quietReceipt = (\<lambda>r acct. None)"

section \<open>Properties\<close>

subsection \<open>Auxiliary facts\<close>

lemma amount_HistoryEvent_new [simp]: "amount (HistoryEvent_new a d e p) = a"
  by (simp add: HistoryEvent_new_def)

lemma process_loop_ok:
  assumes "\<forall>tr a n rid. sdk_createPayable env tr a n rid = None"
  shows "\<exists>es. process_loop env ev d rs s = (Inr (), s\<lparr>trace := trace s @ es\<rparr>)
            \<and> issuerCalls es = map (\<lambda>rw. (ev, d, issuer rw ev d)) rs
            \<and> payableAmounts es = List.map_filter (\<lambda>rw. issuer rw ev d) rs
            \<and> historyAmounts es = List.map_filter (\<lambda>rw. issuer rw ev d) rs"
proof (induction rs arbitrary: s)
  case Nil
  show ?case by (intro exI[of _ "[]"]) simp
next
  case (Cons rw rs)
  show ?case
  proof (cases "issuer rw ev d")
    case None
    let ?s1 = "emit (IssuerCall ev d None) s"
    from Cons.IH[of ?s1] obtain es where
      es: "process_loop env ev d rs ?s1 = (Inr (), ?s1\<lparr>trace := trace ?s1 @ es\<rparr>)"
          "issuerCalls es = map (\<lambda>rw. (ev, d, issuer rw ev d)) rs"
          "payableAmounts es = List.map_filter (\<lambda>rw. issuer rw ev d) rs"
          "historyAmounts es = List.map_filter (\<lambda>rw. issuer rw ev d) rs"
      by blast
    show ?thesis
      apply (rule exI[of _ "IssuerCall ev d None # es"])
      using None es by (simp add: emit_def)
  next
    case (Some a)
    let ?s1 = "emit (IssuerCall ev d (Some a)) s"
    let ?h = "HistoryEvent_new a (now env (trace ?s1)) ev
                (case account d of None \<Rightarrow> None | Some acc \<Rightarrow> type (accountType acc))"
    let ?rid = "case receipt d of None \<Rightarrow> None | Some r \<Rightarrow> blinkReceiptId r"
    let ?s3 = "emit (HistoryAdd ?h) (emit (SdkCreatePayable a (name env ?h) ?rid) ?s1)"
    from Cons.IH[of ?s3] obtain es where
      es: "process_loop env ev d rs ?s3 = (Inr (), ?s3\<lparr>trace := trace ?s3 @ es\<rparr>)"
          "issuerCalls es = map (\<lambda>rw. (ev, d, issuer rw ev d)) rs"
          "payableAmounts es = List.map_filter (\<lambda>rw. issuer rw ev d) rs"
          "historyAmounts es = List.map_filter (\<lambda>rw. issuer rw ev d) rs"
      by blast
    show ?thesis
      apply (rule exI[of _ "IssuerCall ev d (Some a) # SdkCreatePayable a (name env ?h) ?rid # HistoryAdd ?h # es"])
      using Some es assms by (simp add: emit_def Let_def)
  qed
qed

lemma newEffects_append [simp]: "newEffects s (s'\<lparr>trace := trace s @ es\<rparr>) = es"
  by (simp add: newEffects_def)

lemma accountListenerCalls_append:
  "accountListenerCalls (xs @ ys) = accountListenerCalls xs @ accountListenerCalls ys"
  by (induction xs rule: accountListenerCalls.induct) simp_all

lemma process_loop_trace:
  "\<exists>es. snd (process_loop env ev d rs s) = s\<lparr>trace := trace s @ es\<rparr>
        \<and> accountListenerCalls es = []"
proof (induction rs arbitrary: s)
  case Nil
  show ?case by (intro exI[of _ "[]"]) simp
next
  case (Cons rw rs)
  show ?case
  proof (cases "issuer rw ev d")
    case None
    let ?s1 = "emit (IssuerCall ev d None) s"
    from Cons.IH[of ?s1] obtain es where
      es: "snd (process_loop env ev d rs ?s1) = ?s1\<lparr>trace := trace ?s1 @ es\<rparr>"
          "accountListenerCalls es = []"
      by blast
    show ?thesis
      apply (rule exI[of _ "IssuerCall ev d None # es"])
      using None es by (simp add: emit_def)
  next
    case (Some a)
    let ?s1 = "emit (IssuerCall ev d (Some a)) s"
    let ?h = "HistoryEvent_new a (now env (trace ?s1)) ev
                (case account d of None \<Rightarrow> None | Some acc \<Rightarrow> type (accountType acc))"
    let ?rid = "case receipt d of None \<Rightarrow> None | Some r \<Rightarrow> blinkReceiptId r"
    let ?s2 = "emit (SdkCreatePayable a (name env ?h) ?rid) ?s1"
    let ?s3 = "emit (HistoryAdd ?h) ?s2"
    show ?thesis
    proof (cases "sdk_createPayable env (trace ?s1) a (name env ?h) ?rid")
      case None
      from Cons.IH[of ?s3] obtain es where
        es: "snd (process_loop env ev d rs ?s3) = ?s3\<lparr>trace := trace ?s3 @ es\<rparr>"
            "accountListenerCalls es = []"
        by blast
      show ?thesis
        apply (rule exI[of _ "IssuerCall ev d (Some a) # SdkCreatePayable a (name env ?h) ?rid # HistoryAdd ?h # es"])
        using Some None es by (simp add: emit_def Let_def)
    next
      case (Some e)
      show ?thesis
        apply (rule exI[of _ "[IssuerCall ev d (Some a), SdkCreatePayable a (name env ?h) ?rid]"])
        using \<open>issuer rw ev d = Some a\<close> Some by (simp add: emit_def Let_def)
    qed
  qed
qed

lemma notifyReceipt_trace:
  "\<exists>es. snd (notifyReceipt env ls r acct s) = s\<lparr>trace := trace s @ es\<rparr>"
proof (induction ls arbitrary: s)
  case Nil
  show ?case by (intro exI[of _ "[]"]) simp
next
  case (Cons l ls)
  obtain lid listener where l: "l = (lid, listener)" by (cases l)
  show ?case
  proof (cases "fromValue env acct")
    case (Inl e)
    then show ?thesis using l by (intro exI[of _ "[]"]) simp
  next
    case (Inr ra)
    let ?s1 = "emit (ReceiptListenerCall lid r ra) s"
    show ?thesis
    proof (cases "listener r ra")
      case None
      from Cons.IH[of ?s1] obtain es where
        "snd (notifyReceipt env ls r acct ?s1) = ?s1\<lparr>trace := trace ?s1 @ es\<rparr>" by blast
      then show ?thesis using l Inr None
        by (intro exI[of _ "ReceiptListenerCall lid r ra # es"]) (simp add: emit_def)
    next
      case (Some e)
      then show ?thesis using l Inr
        by (intro exI[of _ "[ReceiptListenerCall lid r ra]"]) (simp add: emit_def)
    qed
  qed
qed

lemma addReceipt_trace:
  "\<exists>es. snd (addReceipt env r acct s) =
          s\<lparr>trace := trace s @
               (if \<not> duplicate r \<and> \<not> fraudulent r then SdkIngest r
                else ConsoleWarn (ReceiptIgnored (duplicate r) (fraudulent r) (ocrConfidence r))) # es\<rparr>"
proof (cases "\<not> duplicate r \<and> \<not> fraudulent r")
  case False
  then show ?thesis
    by (intro exI[of _ "[]"]) (auto simp: addReceipt_def emit_def)
next
  case ok: True
  let ?s1 = "emit (SdkIngest r) s"
  show ?thesis
  proof (cases "sdk_ingest env (trace s) r")
    case (Some e)
    then show ?thesis using ok
      by (intro exI[of _ "[]"]) (simp add: addReceipt_def emit_def)
  next
    case None
    show ?thesis
    proof (cases "fromValue env acct")
      case (Inl e)
      then show ?thesis using ok None
        by (intro exI[of _ "[]"]) (simp add: addReceipt_def emit_def)
    next
      case (Inr ra)
      let ?d = "\<lparr>receipt = Some r, account = Some ra\<rparr>"
      obtain res s2 where p: "process env SCAN ?d ?s1 = (res, s2)" by (cases "process env SCAN ?d ?s1")
      from process_loop_trace[of env SCAN ?d "config_rewards env" ?s1] p
      obtain es where es: "s2 = ?s1\<lparr>trace := trace ?s1 @ es\<rparr>"
        unfolding process_def by auto
      show ?thesis
      proof (cases res)
        case (Inl e)
        then show ?thesis using ok None Inr p es
          by (intro exI[of _ es]) (simp add: addReceipt_def emit_def)
      next
        case u: (Inr u)
        from notifyReceipt_trace[of env "onReceiptListeners s2" r acct s2]
        obtain es' where "snd (notifyReceipt env (onReceiptListeners s2) r acct s2) = s2\<lparr>trace := trace s2 @ es'\<rparr>"
          by blast
        then show ?thesis using ok None Inr p es u
          by (intro exI[of _ "es @ es'"]) (simp add: addReceipt_def emit_def)
      qed
    qed
  qed
qed

lemma notifyAccount_ok:
  assumes "\<forall>(lid, l) \<in> set ls. l a = None"
  shows "notifyAccount ls a s =
           (Inr (), s\<lparr>trace := trace s @ map (\<lambda>(lid, l). AccountListenerCall lid a) ls\<rparr>)"
  using assms
proof (induction ls arbitrary: s)
  case Nil
  show ?case by simp
next
  case (Cons l ls)
  obtain lid listener where l: "l = (lid, listener)" by (cases l)
  with Cons.prems have "listener a = None" "\<forall>(lid, l) \<in> set ls. l a = None" by auto
  with Cons.IH[of "emit (AccountListenerCall lid a) s"] l show ?case
    by (simp add: emit_def)
qed

lemma accountListenerCalls_map:
  "accountListenerCalls (map (\<lambda>(lid, l). AccountListenerCall lid a) ls) = map (\<lambda>(lid, l). (lid, a)) ls"
  by (induction ls) auto

lemma count_list_distinct:
  "distinct xs \<Longrightarrow> x \<in> set xs \<Longrightarrow> count_list xs x = 1"
  by (induction xs) (auto simp: count_list_0_iff)

lemma count_list_calls:
  "count_list (map (\<lambda>(lid, l). (lid, a)) ls) (k, a) = count_list (map fst ls) k"
  by (induction ls) auto

text \<open>
  The threshold is the binary64 number nearest to \<open>9 / 10\<close>: it lies above it, by less
  than half a unit in the last place (\<open>1 / 2 ^ 54\<close>).
\<close>

lemma OCR_THRESHOLD_nearest: "9 / 10 < OCR_THRESHOLD \<and> OCR_THRESHOLD - 9 / 10 < 1 / 2 ^ 54"
  by (simp add: OCR_THRESHOLD_def)

subsection \<open>Receipt admission\<close>

text \<open>
  C1: a receipt passed to \<^verbatim>\<open>addReceipt\<close> with \<^verbatim>\<open>duplicate\<close> or \<^verbatim>\<open>fraudulent\<close> set
  is dropped: the call completes normally, the state of the service is unchanged, and
  the only call made is the \<^verbatim>\<open>console.warn\<close> with the diagnostic message. Hence no
  payable is created, no reward issuer is evaluated and no receipt listener is invoked.
\<close>

theorem addReceipt_rejected:
  assumes "duplicate r \<or> fraudulent r"
  shows "addReceipt env r acct s =
           (Inr (), s\<lparr>trace := trace s @
              [ConsoleWarn (ReceiptIgnored (duplicate r) (fraudulent r) (ocrConfidence r))]\<rparr>)"
  using assms by (auto simp: addReceipt_def emit_def)

text \<open>A duplicate receipt, with a receipt listener registered.\<close>

theorem addReceipt_rejected_witness:
  "(duplicate duplicateReceipt \<or> fraudulent duplicateReceipt)
   \<and> addReceipt env0 duplicateReceipt None (onReceipt ''ui'' quietReceipt s0) =
       (Inr (), \<lparr>cachedAccounts = [], onAccountListeners = [],
                 onReceiptListeners = [(''ui'', quietReceipt)],
                 trace = [ConsoleWarn (ReceiptIgnored True False (19 / 20))]\<rparr>)"
  using addReceipt_rejected [of duplicateReceipt env0 None "onReceipt ''ui'' quietReceipt s0"]
  by (simp add: duplicateReceipt_def s0_def onReceipt_def)

subsection \<open>The decision loop\<close>

text \<open>
  C2: \<^verbatim>\<open>process(event, details)\<close> evaluates every configured reward rule on the event,
  in order and once each, whatever the earlier rules returned. The payables requested
  are exactly the amounts of the rules that returned one, one \<^verbatim>\<open>createPayable\<close> call
  per such rule, and so are the history events added; a rule that returns
  \<^verbatim>\<open>undefined\<close> causes neither. The ledger is assumed to resolve each
  \<^verbatim>\<open>createPayable\<close> request (a rejection propagates through the \<^verbatim>\<open>await\<close>).
\<close>

theorem process_fan_out:
  assumes "\<forall>tr a n rid. sdk_createPayable env tr a n rid = None"
  shows "fst (process env ev d s) = Inr ()
       \<and> issuerCalls (newEffects s (snd (process env ev d s)))
           = map (\<lambda>rw. (ev, d, issuer rw ev d)) (config_rewards env)
       \<and> payableAmounts (newEffects s (snd (process env ev d s)))
           = List.map_filter (\<lambda>rw. issuer rw ev d) (config_rewards env)
       \<and> historyAmounts (newEffects s (snd (process env ev d s)))
           = List.map_filter (\<lambda>rw. issuer rw ev d) (config_rewards env)"
proof -
  from process_loop_ok [OF assms, of ev d "config_rewards env" s]
  obtain es where
    "process env ev d s = (Inr (), s\<lparr>trace := trace s @ es\<rparr>)"
    "issuerCalls es = map (\<lambda>rw. (ev, d, issuer rw ev d)) (config_rewards env)"
    "payableAmounts es = List.map_filter (\<lambda>rw. issuer rw ev d) (config_rewards env)"
    "historyAmounts es = List.map_filter (\<lambda>rw. issuer rw ev d) (config_rewards env)"
    unfolding process_def by blast
  then show ?thesis by simp
qed

text \<open>Three rules, two of which pay on \<^verbatim>\<open>LINK\<close>: both payables are issued.\<close>

theorem process_fan_out_witness:
  "(\<forall>tr a n rid. sdk_createPayable env0 tr a n rid = None)
   \<and> fst (process env0 LINK \<lparr>receipt = None, account = Some alice\<rparr> s0) = Inr ()
   \<and> length (issuerCalls (newEffects s0 (snd (process env0 LINK \<lparr>receipt = None, account = Some alice\<rparr> s0)))) = 3
   \<and> payableAmounts (newEffects s0 (snd (process env0 LINK \<lparr>receipt = None, account = Some alice\<rparr> s0))) = [1, 1 / 2]
   \<and> historyAmounts (newEffects s0 (snd (process env0 LINK \<lparr>receipt = None, account = Some alice\<rparr> s0))) = [1, 1 / 2]"
proof -
  have h: "\<forall>tr a n rid. sdk_createPayable env0 tr a n rid = None"
    by (simp add: env0_def)
  show ?thesis
    using h process_fan_out [OF h, of LINK "\<lparr>receipt = None, account = Some alice\<rparr>" s0]
    by (simp add: env0_def linkReward_def scanReward_def linkBonus_def)
qed

subsection \<open>Scanning\<close>

text \<open>
  C9: for a defined scan type other than \<^verbatim>\<open>'PHYSICAL'\<close> and other than the empty
  string, in particular for \<^verbatim>\<open>'ONLINE'\<close>, both guards of \<^verbatim>\<open>scan\<close> are false: the call
  resolves and leaves the whole state as it was, the trace included, so that no
  collaborator is called, no receipt is added, and the account cache and the registries
  are the same. The empty string has to be excluded: it is defined and is not
  \<^verbatim>\<open>'PHYSICAL'\<close>, but it passes the guard \<^verbatim>\<open>!scanType\<close>.
\<close>

theorem scan_other_type_noop:
  assumes "scanType \<noteq> PHYSICAL" and "scanType \<noteq> OtherScanType []"
  shows "scan env (Some scanType) acct s = (Inr (), s)"
  using assms by (simp add: scan_def)

text \<open>The call that \<^verbatim>\<open>addAccount\<close> makes.\<close>

theorem scan_other_type_noop_witness:
  "ONLINE \<noteq> PHYSICAL \<and> ONLINE \<noteq> OtherScanType []
   \<and> scan env0 (Some ONLINE) (Some alice) s0 = (Inr (), s0)"
  using scan_other_type_noop [of ONLINE env0 "Some alice" s0] by simp

text \<open>
  With the empty string as scan type, which is defined and is not \<^verbatim>\<open>'PHYSICAL'\<close>, the
  call is not a no-op: the capture plugin is asked for an online scan and the receipt
  goes to \<^verbatim>\<open>addReceipt\<close>, which ingests it.
\<close>

theorem scan_empty_type_counterexample:
  "OtherScanType [] \<noteq> PHYSICAL
   \<and> scan env0 (Some (OtherScanType [])) (Some alice) s0 \<noteq> (Inr (), s0)
   \<and> trace (snd (scan env0 (Some (OtherScanType [])) (Some alice) s0)) =
       [PluginScan ONLINE (Some alice), SdkIngest blurredReceipt]"
  by (simp add: scan_def addReceipt_def emit_def env0_def s0_def blurredReceipt_def)

text \<open>
  C4: \<^verbatim>\<open>scan('PHYSICAL')\<close> when the ledger client reports no license rejects with the
  error whose message names the identifier \<^verbatim>\<open>this.tiki.sdk.id\<close>. The only call made is
  \<^verbatim>\<open>getLicense\<close>: the capture plugin is not asked to scan, no receipt is added, and
  the account cache and the registries are unchanged.
\<close>

theorem scan_physical_without_license:
  assumes "sdk_getLicense env (trace s) = Inr None"
  shows "scan env (Some PHYSICAL) acct s =
           (Inl (Error (''No license found for '' @ sdk_id env
                          @ ''. User must first consent to the program.'')),
            s\<lparr>trace := trace s @ [SdkGetLicense]\<rparr>)"
  using assms by (simp add: scan_def emit_def)

text \<open>The example environment with the license withdrawn.\<close>

theorem scan_physical_without_license_witness:
  "sdk_getLicense (env0\<lparr>sdk_getLicense := (\<lambda>tr. Inr None)\<rparr>) (trace s0) = Inr None
   \<and> scan (env0\<lparr>sdk_getLicense := (\<lambda>tr. Inr None)\<rparr>) (Some PHYSICAL) None s0 =
       (Inl (Error ''No license found for user-1. User must first consent to the program.''),
        s0\<lparr>trace := [SdkGetLicense]\<rparr>)"
  using scan_physical_without_license [of "env0\<lparr>sdk_getLicense := (\<lambda>tr. Inr None)\<rparr>" s0 None]
  by (simp add: env0_def s0_def)

text \<open>
  C3: on the \<^verbatim>\<open>'PHYSICAL'\<close> path with a license, when the capture plugin's scan has
  resolved with a receipt, that receipt is handed to \<^verbatim>\<open>addReceipt\<close> exactly if its
  \<^verbatim>\<open>ocrConfidence\<close> is strictly above \<^verbatim>\<open>OCR_THRESHOLD\<close>. At or below the threshold
  the call resolves (nothing is thrown) and the only call made after the scan is the
  \<^verbatim>\<open>console.warn\<close> with the confidence: no reward rule is evaluated.
\<close>

theorem scan_physical_threshold:
  assumes "sdk_getLicense env (trace s) = Inr (Some license)"
      and "plugin_scan env (trace s @ [SdkGetLicense]) PHYSICAL None = Inr r"
  shows "(scan env (Some PHYSICAL) acct s =
            addReceipt env r None (s\<lparr>trace := trace s @ [SdkGetLicense, PluginScan PHYSICAL None]\<rparr>))
           = (OCR_THRESHOLD < ocrConfidence r)
       \<and> (ocrConfidence r \<le> OCR_THRESHOLD \<longrightarrow>
            scan env (Some PHYSICAL) acct s =
              (Inr (), s\<lparr>trace := trace s @ [SdkGetLicense, PluginScan PHYSICAL None,
                                            ConsoleWarn (LowConfidence (ocrConfidence r))]\<rparr>))"
proof -
  let ?s2 = "s\<lparr>trace := trace s @ [SdkGetLicense, PluginScan PHYSICAL None]\<rparr>"
  let ?warned = "s\<lparr>trace := trace s @ [SdkGetLicense, PluginScan PHYSICAL None,
                                        ConsoleWarn (LowConfidence (ocrConfidence r))]\<rparr>"
  have above: "scan env (Some PHYSICAL) acct s = addReceipt env r None ?s2"
    if "OCR_THRESHOLD < ocrConfidence r"
    using assms that by (simp add: scan_def emit_def split: prod.splits sum.splits)
  have below: "scan env (Some PHYSICAL) acct s = (Inr (), ?warned)"
    if "\<not> OCR_THRESHOLD < ocrConfidence r"
    using assms that by (simp add: scan_def emit_def)
  from addReceipt_trace[of env r None ?s2] obtain e es where
    tr: "snd (addReceipt env r None ?s2) = ?s2\<lparr>trace := trace ?s2 @ e # es\<rparr>"
    and e: "e = SdkIngest r \<or> e = ConsoleWarn (ReceiptIgnored (duplicate r) (fraudulent r) (ocrConfidence r))"
    by (cases "\<not> duplicate r \<and> \<not> fraudulent r") auto
  have differ: "addReceipt env r None ?s2 \<noteq> (Inr (), ?warned)"
  proof
    assume "addReceipt env r None ?s2 = (Inr (), ?warned)"
    then have "snd (addReceipt env r None ?s2) = ?warned" by simp
    with tr have "trace (?s2\<lparr>trace := trace ?s2 @ e # es\<rparr>) = trace ?warned" by simp
    then have "e # es = [ConsoleWarn (LowConfidence (ocrConfidence r))]" by simp
    with e show False by auto
  qed
  show ?thesis
  proof (cases "OCR_THRESHOLD < ocrConfidence r")
    case True
    then show ?thesis using above by simp
  next
    case False
    then show ?thesis using below differ by simp
  qed
qed

text \<open>A receipt of confidence \<open>1 / 2\<close> is discarded with the warning.\<close>

theorem scan_physical_threshold_witness:
  "sdk_getLicense env0 (trace s0) = Inr (Some (LicenseRecord ''license-1''))
   \<and> plugin_scan env0 (trace s0 @ [SdkGetLicense]) PHYSICAL None = Inr blurredReceipt
   \<and> ocrConfidence blurredReceipt \<le> OCR_THRESHOLD
   \<and> scan env0 (Some PHYSICAL) None s0 =
       (Inr (), s0\<lparr>trace := [SdkGetLicense, PluginScan PHYSICAL None, ConsoleWarn (LowConfidence (1 / 2))]\<rparr>)
   \<and> scan env0 (Some PHYSICAL) None s0 \<noteq>
       addReceipt env0 blurredReceipt None (s0\<lparr>trace := [SdkGetLicense, PluginScan PHYSICAL None]\<rparr>)"
proof -
  have l: "sdk_getLicense env0 (trace s0) = Inr (Some (LicenseRecord ''license-1''))"
    by (simp add: env0_def)
  have p: "plugin_scan env0 (trace s0 @ [SdkGetLicense]) PHYSICAL None = Inr blurredReceipt"
    by (simp add: env0_def)
  have c: "ocrConfidence blurredReceipt \<le> OCR_THRESHOLD"
    by (simp add: OCR_THRESHOLD_def blurredReceipt_def)
  have t: "trace s0 = []"
    by (simp add: s0_def)
  note th = scan_physical_threshold [OF l p, of None]
  have w: "scan env0 (Some PHYSICAL) None s0 =
       (Inr (), s0\<lparr>trace := [SdkGetLicense, PluginScan PHYSICAL None, ConsoleWarn (LowConfidence (1 / 2))]\<rparr>)"
    using th [THEN conjunct2] c by (simp add: t blurredReceipt_def)
  have n: "scan env0 (Some PHYSICAL) None s0 \<noteq>
       addReceipt env0 blurredReceipt None (s0\<lparr>trace := [SdkGetLicense, PluginScan PHYSICAL None]\<rparr>)"
    using th [THEN conjunct1] c by (simp add: t)
  show ?thesis
    using l p c w n by blast
qed

text \<open>
  C7: \<^verbatim>\<open>scan(undefined, account)\<close> asks the capture plugin for an online scan of that
  account and hands the receipt to \<^verbatim>\<open>addReceipt\<close> whatever its \<^verbatim>\<open>ocrConfidence\<close>:
  the call right after the scan is the first call of \<^verbatim>\<open>addReceipt\<close>, the ingestion of
  the receipt or, for a duplicate or fraudulent one, its diagnostic. The confidence is
  not compared with the threshold on this path.
\<close>

theorem scan_online_no_gate:
  assumes "plugin_scan env (trace s) ONLINE (Some a) = Inr r"
  shows "scan env None (Some a) s =
           (Inr (), snd (addReceipt env r None (s\<lparr>trace := trace s @ [PluginScan ONLINE (Some a)]\<rparr>)))
       \<and> take 2 (newEffects s (snd (scan env None (Some a) s))) =
           [PluginScan ONLINE (Some a),
            if \<not> duplicate r \<and> \<not> fraudulent r then SdkIngest r
            else ConsoleWarn (ReceiptIgnored (duplicate r) (fraudulent r) (ocrConfidence r))]"
proof -
  let ?s1 = "s\<lparr>trace := trace s @ [PluginScan ONLINE (Some a)]\<rparr>"
  have eq: "scan env None (Some a) s = (Inr (), snd (addReceipt env r None ?s1))"
    using assms by (simp add: scan_def emit_def)
  from addReceipt_trace[of env r None ?s1] obtain es where
    "snd (addReceipt env r None ?s1) =
       ?s1\<lparr>trace := trace ?s1 @
               (if \<not> duplicate r \<and> \<not> fraudulent r then SdkIngest r
                else ConsoleWarn (ReceiptIgnored (duplicate r) (fraudulent r) (ocrConfidence r))) # es\<rparr>"
    by blast
  with eq show ?thesis by (simp add: newEffects_def)
qed

text \<open>A receipt of confidence \<open>1 / 2\<close>, below the threshold, is ingested.\<close>

theorem scan_online_no_gate_witness:
  "plugin_scan env0 (trace s0) ONLINE (Some alice) = Inr blurredReceipt
   \<and> ocrConfidence blurredReceipt \<le> OCR_THRESHOLD
   \<and> take 2 (newEffects s0 (snd (scan env0 None (Some alice) s0))) =
       [PluginScan ONLINE (Some alice), SdkIngest blurredReceipt]"
proof -
  have p: "plugin_scan env0 (trace s0) ONLINE (Some alice) = Inr blurredReceipt"
    by (simp add: env0_def)
  have c: "ocrConfidence blurredReceipt \<le> OCR_THRESHOLD"
    by (simp add: OCR_THRESHOLD_def blurredReceipt_def)
  have f: "\<not> duplicate blurredReceipt \<and> \<not> fraudulent blurredReceipt"
    by (simp add: blurredReceipt_def)
  show ?thesis
    using p c f scan_online_no_gate [OF p, THEN conjunct2] by simp
qed

subsection \<open>Logout\<close>

text \<open>
  C8: \<^verbatim>\<open>logout()\<close> without an argument makes one call, the request of a full logout
  to the capture plugin: no listener is notified (no \<^verbatim>\<open>UNLINK\<close>) and no reward rule
  is evaluated. Once the plugin has resolved the request, the account cache is empty
  and nothing else has changed.
\<close>

theorem logout_all:
  "newEffects s (snd (logout env None s)) = [PluginLogout None]
   \<and> (plugin_logout env (trace s) None = None \<longrightarrow>
        logout env None s =
          (Inr (), s\<lparr>cachedAccounts := [], trace := trace s @ [PluginLogout None]\<rparr>))"
  by (cases "plugin_logout env (trace s) None") (simp_all add: logout_def emit_def newEffects_def)

text \<open>A cache of two accounts is emptied.\<close>

theorem logout_all_witness:
  "plugin_logout env0 (trace (s0\<lparr>cachedAccounts := [alice, bob]\<rparr>)) None = None
   \<and> newEffects (s0\<lparr>cachedAccounts := [alice, bob]\<rparr>)
        (snd (logout env0 None (s0\<lparr>cachedAccounts := [alice, bob]\<rparr>))) = [PluginLogout None]
   \<and> logout env0 None (s0\<lparr>cachedAccounts := [alice, bob]\<rparr>) =
       (Inr (), s0\<lparr>trace := [PluginLogout None]\<rparr>)"
proof -
  have p: "plugin_logout env0 (trace (s0\<lparr>cachedAccounts := [alice, bob]\<rparr>)) None = None"
    by (simp add: env0_def)
  note th = logout_all [of "s0\<lparr>cachedAccounts := [alice, bob]\<rparr>" env0]
  have r: "logout env0 None (s0\<lparr>cachedAccounts := [alice, bob]\<rparr>) =
             (Inr (), s0\<lparr>trace := [PluginLogout None]\<rparr>)"
    using th [THEN conjunct2] p by (simp add: s0_def)
  show ?thesis
    using p r th [THEN conjunct1] by blast
qed

text \<open>
  C10: \<^verbatim>\<open>logout(account)\<close>, once the capture plugin has resolved the logout, calls
  the registered account listeners in registration order, each once and with that
  account, whatever the account cache holds (it may be empty, and no cached account
  need match). With the keys of the registry distinct, as in a \<^verbatim>\<open>Map\<close>, each listener
  is called exactly once. The listeners are assumed to return.
\<close>

theorem logout_account_notifies:
  assumes "plugin_logout env (trace s) (Some (username a, password a, key (accountType a))) = None"
      and "\<forall>(lid, l) \<in> set (onAccountListeners s). l a = None"
  shows "accountListenerCalls (newEffects s (snd (logout env (Some a) s)))
           = map (\<lambda>(lid, l). (lid, a)) (onAccountListeners s)
       \<and> (distinct (map fst (onAccountListeners s)) \<longrightarrow>
            (\<forall>(lid, l) \<in> set (onAccountListeners s).
               count_list (accountListenerCalls (newEffects s (snd (logout env (Some a) s)))) (lid, a) = 1))"
proof -
  let ?args = "Some (username a, password a, key (accountType a))"
  let ?ls = "onAccountListeners s"
  let ?s2 = "s\<lparr>cachedAccounts :=
                  filter (\<lambda>acc. username acc \<noteq> username a
                              \<and> type (accountType acc) \<noteq> type (accountType a)) (cachedAccounts s),
               trace := trace s @ PluginLogout ?args # map (\<lambda>(lid, l). AccountListenerCall lid a) ?ls\<rparr>"
  let ?d = "\<lparr>receipt = None, account = Some a\<rparr>"
  have rm: "removeAccount a (emit (PluginLogout ?args) s) = (Inr (), ?s2)"
    using notifyAccount_ok [OF assms(2)] by (simp add: removeAccount_def emit_def)
  have lo: "logout env (Some a) s = process env UNLINK ?d ?s2"
    using assms(1) rm by (simp add: logout_def)
  from process_loop_trace [of env UNLINK ?d "config_rewards env" ?s2] obtain es where
    es: "snd (process env UNLINK ?d ?s2) = ?s2\<lparr>trace := trace ?s2 @ es\<rparr>"
        "accountListenerCalls es = []"
    unfolding process_def by blast
  have calls: "accountListenerCalls (newEffects s (snd (logout env (Some a) s)))
                 = map (\<lambda>(lid, l). (lid, a)) ?ls"
    using lo es by (simp add: newEffects_def accountListenerCalls_append accountListenerCalls_map)
  have once: "count_list (map (\<lambda>(lid, l). (lid, a)) ?ls) (lid, a) = 1"
    if d: "distinct (map fst ?ls)" and m: "(lid, l) \<in> set ?ls" for lid l
  proof -
    have "lid \<in> set (map fst ?ls)" using m by force
    with d have "count_list (map fst ?ls) lid = 1" by (rule count_list_distinct)
    then show ?thesis by (simp add: count_list_calls)
  qed
  show ?thesis
  proof (intro conjI impI)
    show "accountListenerCalls (newEffects s (snd (logout env (Some a) s)))
            = map (\<lambda>(lid, l). (lid, a)) ?ls" by (rule calls)
  next
    assume d: "distinct (map fst ?ls)"
    show "\<forall>(lid, l) \<in> set ?ls.
            count_list (accountListenerCalls (newEffects s (snd (logout env (Some a) s)))) (lid, a) = 1"
      unfolding calls using once [OF d] by blast
  qed
qed

text \<open>An empty cache and one listener.\<close>

theorem logout_account_notifies_witness:
  "plugin_logout env0 (trace (onAccount ''ui'' quiet s0))
     (Some (username alice, password alice, key (accountType alice))) = None
   \<and> onAccountListeners (onAccount ''ui'' quiet s0) = [(''ui'', quiet)]
   \<and> quiet alice = None
   \<and> cachedAccounts (onAccount ''ui'' quiet s0) = []
   \<and> distinct (map fst (onAccountListeners (onAccount ''ui'' quiet s0)))
   \<and> accountListenerCalls (newEffects (onAccount ''ui'' quiet s0)
         (snd (logout env0 (Some alice) (onAccount ''ui'' quiet s0)))) = [(''ui'', alice)]
   \<and> count_list (accountListenerCalls (newEffects (onAccount ''ui'' quiet s0)
         (snd (logout env0 (Some alice) (onAccount ''ui'' quiet s0))))) (''ui'', alice) = 1"
proof -
  have p: "plugin_logout env0 (trace (onAccount ''ui'' quiet s0))
             (Some (username alice, password alice, key (accountType alice))) = None"
    by (simp add: env0_def)
  have q: "\<forall>(lid, l) \<in> set (onAccountListeners (onAccount ''ui'' quiet s0)). l alice = None"
    by (simp add: onAccount_def s0_def quiet_def)
  show ?thesis
    using p logout_account_notifies [OF p q]
    by (simp add: onAccount_def s0_def quiet_def)
qed

text \<open>
  C5: the filter of \<^verbatim>\<open>removeAccount\<close> keeps an account only if it differs from the
  given one in the user name and in the account type as well. With the two accounts
  \<open>alice\<close> and \<open>bob\<close> of the same type cached, logging \<open>alice\<close> out removes \<open>bob\<close> too.
\<close>

theorem logout_account_removes_other_account:
  "username bob \<noteq> username alice
   \<and> cachedAccounts (snd (logout env0 (Some alice) (s0\<lparr>cachedAccounts := [alice, bob]\<rparr>))) = []"
  by (simp add: logout_def removeAccount_def process_def emit_def env0_def s0_def alice_def bob_def
        linkReward_def scanReward_def linkBonus_def Let_def)

subsection \<open>The persisted accounts\<close>

text \<open>
  C6: \<^verbatim>\<open>accounts()\<close> on an empty cache, with two persisted accounts and one account
  listener: the cache then holds the two accounts and the listener has been called
  twice, but the capture plugin has not been asked for any scan. The two calls
  \<^verbatim>\<open>this.scan('ONLINE', ...)\<close> made for each account pass neither guard of \<^verbatim>\<open>scan\<close>.
\<close>

theorem accounts_reaches_no_plugin_scan:
  "accounts env0 (onAccount ''ui'' quiet s0) =
     (Inr (), \<lparr>cachedAccounts = [alice, bob],
               onAccountListeners = [(''ui'', quiet)],
               onReceiptListeners = [],
               trace = [PluginAccounts, AccountListenerCall ''ui'' alice, AccountListenerCall ''ui'' bob]\<rparr>)
   \<and> pluginScans (trace (snd (accounts env0 (onAccount ''ui'' quiet s0)))) = []"
  by (simp add: accounts_def addAccount_def scan_def onAccount_def emit_def env0_def s0_def
        quiet_def Let_def)

end
